theory Spec2Isabelle
  imports Main "HOL-Library.Sublist"
begin

section \<open>The braces facade: caches and matching (index.js)\<close>

text \<open>
  The module \<^verbatim>\<open>index.js\<close> keeps two module-level objects, \<^verbatim>\<open>cache\<close> and
  \<^verbatim>\<open>makeReCache\<close>, and exports the functions \<^verbatim>\<open>braces\<close>, \<^verbatim>\<open>braces.compile\<close>,
  \<^verbatim>\<open>braces.expand\<close>, \<^verbatim>\<open>braces.match\<close>, \<^verbatim>\<open>braces.isMatch\<close>, \<^verbatim>\<open>braces.matcher\<close>
  and \<^verbatim>\<open>braces.makeRe\<close>. Every function is modelled with explicit state passing:
  it takes the state of the module and returns its result (an error for a throw)
  together with the state it leaves behind.

  Conventions of the model.
  \<^item> A JavaScript string is a \<open>string\<close>; \<open>length\<close> is the \<^verbatim>\<open>.length\<close> of the source.
  \<^item> The two cache objects are ordinary objects created by \<^verbatim>\<open>{}\<close>: each has its own
    properties and a prototype, which is \<^verbatim>\<open>Object.prototype\<close> at first. A read
    \<^verbatim>\<open>obj[k]\<close> goes through the prototype chain, an assignment \<^verbatim>\<open>obj['__proto__'] = v\<close>
    replaces the prototype and creates no property, and an own property named
    \<^verbatim>\<open>hasOwnProperty\<close> hides the method of that name.
  \<^item> The built-in objects of the JavaScript host (what \<^verbatim>\<open>Object.prototype\<close>, a function,
    an array or a regular expression contribute as a prototype) are a parameter,
    the record \<open>host\<close>.
  \<^item> The classes and helpers of \<^verbatim>\<open>./lib\<close> (\<^verbatim>\<open>Braces\<close>, \<^verbatim>\<open>utils.escape\<close>,
    \<^verbatim>\<open>utils.unescape\<close>) are parameters, collected in the record \<open>engine\<close>. They are
    functions of their arguments: they keep no state of their own, and they cannot
    reach the two cache objects, which are local variables of \<^verbatim>\<open>index.js\<close>. A regular
    expression built by the engine carries no \<^verbatim>\<open>g\<close> or \<^verbatim>\<open>y\<close> flag, so that
    \<^verbatim>\<open>re.test(str)\<close> depends on \<^verbatim>\<open>re\<close> and \<^verbatim>\<open>str\<close> only.
\<close>

subsection \<open>Options\<close>

text \<open>The values an option may hold: \<^verbatim>\<open>undefined\<close>, \<^verbatim>\<open>null\<close>, a boolean, a number
  or a string. The module never computes with the number of an option: it compares
  option values with \<^verbatim>\<open>true\<close> and \<^verbatim>\<open>false\<close> and prints them with \<^verbatim>\<open>String\<close>. A number is
  therefore represented by the text \<^verbatim>\<open>String\<close> prints for it (\<^verbatim>\<open>'10'\<close>, \<^verbatim>\<open>'1e+21'\<close>,
  \<^verbatim>\<open>'NaN'\<close>).\<close>

datatype oval = OUndefined | ONull | OBool bool | ONum string | OStr string

text \<open>An options object: an object that inherits from \<^verbatim>\<open>Object.prototype\<close> (an object
  literal), given by its own enumerable properties in enumeration order. The argument
  \<^verbatim>\<open>options\<close> of a call is an \<open>options option\<close>; \<open>None\<close> is an argument that was left out
  (\<^verbatim>\<open>undefined\<close>).\<close>

type_synonym options = "(string \<times> oval) list"

text \<open>\<^verbatim>\<open>options[prop]\<close> for the option names the module reads (\<^verbatim>\<open>cache\<close>, \<^verbatim>\<open>failglob\<close>,
  \<^verbatim>\<open>nonull\<close>, \<^verbatim>\<open>nullglob\<close>, none of them a member of \<^verbatim>\<open>Object.prototype\<close>): the value of
  the property, \<^verbatim>\<open>undefined\<close> when absent.\<close>

definition opt_get :: "options \<Rightarrow> string \<Rightarrow> oval" where
  "opt_get opts prop = (case map_of opts prop of None \<Rightarrow> OUndefined | Some v \<Rightarrow> v)"

text \<open>\<^verbatim>\<open>options || {}\<close>\<close>

definition or_empty :: "options option \<Rightarrow> options" where
  "or_empty options = (case options of None \<Rightarrow> [] | Some opts \<Rightarrow> opts)"

text \<open>\<^verbatim>\<open>String(value)\<close>\<close>

fun to_String :: "oval \<Rightarrow> string" where
  "to_String OUndefined = ''undefined''"
| "to_String ONull = ''null''"
| "to_String (OBool b) = (if b then ''true'' else ''false'')"
| "to_String (ONum text) = text"
| "to_String (OStr s) = s"

subsection \<open>Values, errors, the engine\<close>

text \<open>What a throw carries: a failure of the pattern engine (opaque to this layer), the
  \<^verbatim>\<open>Error\<close> that \<^verbatim>\<open>braces.match\<close> creates with its message, or a \<^verbatim>\<open>TypeError\<close> (calling a
  value that is not a function, assigning a property that cannot be assigned in
  strict mode, a getter of the host that throws).\<close>

datatype error = EngineFailure string | Error string | TypeError

text \<open>The key both \<^verbatim>\<open>braces.isMatch\<close> and \<^verbatim>\<open>braces.makeRe\<close> build (lines 116-125 and
  178-187): \<^verbatim>\<open>key = pattern; if (options) for (prop in options)
  if (options.hasOwnProperty(prop)) key += ';' + prop + '=' + String(options[prop])\<close>.
  The loop body runs once for each own property. When the options have an own property
  named \<^verbatim>\<open>hasOwnProperty\<close>, the call \<^verbatim>\<open>options.hasOwnProperty(prop)\<close> of the first round
  calls the value of that property, which is not a function: a \<^verbatim>\<open>TypeError\<close>.\<close>

definition key_step :: "string \<Rightarrow> string \<times> oval \<Rightarrow> string" where
  "key_step key pv = key @ '';'' @ fst pv @ ''='' @ to_String (snd pv)"

definition cache_key :: "string \<Rightarrow> options option \<Rightarrow> error + string" where
  "cache_key pattern options =
     (case options of
        None \<Rightarrow> Inr pattern
      | Some opts \<Rightarrow>
          (case map_of opts ''hasOwnProperty'' of
             Some v \<Rightarrow> Inl TypeError
           | None \<Rightarrow> Inr (foldl key_step pattern opts)))"

text \<open>A regular expression object: the identity of the instance and what the engine
  built.\<close>

datatype 'r regexp = RegExp (ident: nat) (body: 'r)

text \<open>\<^verbatim>\<open>compiled.output\<close> is a string or an array of strings; the field is
  \<open>output_val\<close> here.\<close>

datatype compiled_output = OutStr string | OutArr "string list"

record compiled =
  output_val :: compiled_output

text \<open>What the module stores in \<^verbatim>\<open>cache\<close>. \<^verbatim>\<open>braces\<close> stores \<^verbatim>\<open>result.output\<close>;
  \<^verbatim>\<open>braces.isMatch\<close> stores the function that \<^verbatim>\<open>braces.matcher\<close> returned, which is
  \<^verbatim>\<open>function(str) { return re.test(str); }\<close> and is represented by the \<^verbatim>\<open>re\<close> it closes
  over.\<close>

datatype 'r entry = Output compiled_output | Predicate "'r regexp"

text \<open>A string is a primitive value; an array and a function are objects.\<close>

fun is_object :: "'r entry \<Rightarrow> bool" where
  "is_object (Output (OutStr t)) = False"
| "is_object (Output (OutArr ts)) = True"
| "is_object (Predicate re) = True"

text \<open>The calls made on the pattern engine, in order.\<close>

datatype engine_call =
    NewBraces "options option"
  | Parse string "options option"
  | Compile "options option"
  | MakeRe string

record ('a, 'r) engine =
  utils_escape :: "string \<Rightarrow> options option \<Rightarrow> string"
  utils_unescape :: "string \<Rightarrow> options option \<Rightarrow> string"
  Braces_parse :: "options option \<Rightarrow> string \<Rightarrow> options option \<Rightarrow> error + 'a"
  Braces_compile :: "options option \<Rightarrow> 'a \<Rightarrow> options option \<Rightarrow> error + compiled"
  Braces_makeRe :: "options \<Rightarrow> string \<Rightarrow> error + 'r"
  RegExp_test :: "'r \<Rightarrow> string \<Rightarrow> bool"

subsection \<open>Objects used as dictionaries\<close>

text \<open>An object: its own properties and its prototype. The prototype is
  \<^verbatim>\<open>Object.prototype\<close>, or an object the module itself assigned to \<^verbatim>\<open>__proto__\<close>. All
  own properties are created by plain assignments, so they are writable data
  properties.\<close>

datatype 'v proto = ObjectPrototype | ValueProto 'v

record 'v jsobject =
  own :: "string \<rightharpoonup> 'v"
  proto :: "'v proto"

text \<open>What the prototype chain of an object says about a property name that is no own
  property: nothing, a value, or an accessor whose getter throws.\<close>

datatype 'h lookup = Absent | Member 'h | GetterThrows

text \<open>The built-in objects of the host, as far as the two cache objects can see them.
  \<^item> \<open>inherited P k\<close>: what a read of \<open>k\<close> finds on the chain that starts at the
    prototype \<open>P\<close> (for \<open>k\<close> other than \<^verbatim>\<open>__proto__\<close>).
  \<^item> \<open>assignable P k\<close> and \<open>re_assignable P k\<close> (for \<^verbatim>\<open>cache\<close> and \<^verbatim>\<open>makeReCache\<close>): whether
    an assignment to \<open>k\<close> creates an own property on an object with that chain. It does
    not when the chain holds a read-only property or an accessor of that name; the
    assignment then throws, the module being in strict mode.
  \<^item> \<open>host_truthy h\<close>: whether an inherited value is truthy.
  \<^item> \<open>host_call h str\<close>: the outcome of calling an inherited value as a function, as
    in \<^verbatim>\<open>matcher(str)\<close>.
  Two facts hold in every host and are written into the functions below: \<^verbatim>\<open>__proto__\<close> is
  the accessor of \<^verbatim>\<open>Object.prototype\<close> that reads and replaces the prototype, and the
  only \<^verbatim>\<open>hasOwnProperty\<close> on a chain is the method of \<^verbatim>\<open>Object.prototype\<close>.\<close>

datatype 'h answer = Bool bool | HostAnswer 'h

record ('r, 'h) host =
  inherited :: "'r entry proto \<Rightarrow> string \<Rightarrow> 'h lookup"
  assignable :: "'r entry proto \<Rightarrow> string \<Rightarrow> bool"
  re_assignable :: "'r regexp proto \<Rightarrow> string \<Rightarrow> bool"
  host_truthy :: "'h \<Rightarrow> bool"
  host_call :: "'h \<Rightarrow> string \<Rightarrow> error + 'h answer"

text \<open>What a read of \<^verbatim>\<open>cache[k]\<close> can yield besides \<^verbatim>\<open>undefined\<close>: a value the module
  stored, the prototype (for \<^verbatim>\<open>__proto__\<close>), or an inherited value of the host.\<close>

datatype ('r, 'h) jsvalue = Stored "'r entry" | PrototypeOf "'r entry proto" | Inherited 'h

text \<open>\<^verbatim>\<open>cache[k]\<close>; \<open>None\<close> is \<^verbatim>\<open>undefined\<close>.\<close>

definition cache_get :: "('r, 'h) host \<Rightarrow> 'r entry jsobject \<Rightarrow> string \<Rightarrow> error + ('r, 'h) jsvalue option" where
  "cache_get H obj k =
     (case own obj k of
        Some v \<Rightarrow> Inr (Some (Stored v))
      | None \<Rightarrow>
          if k = ''__proto__'' then Inr (Some (PrototypeOf (proto obj)))
          else (case inherited H (proto obj) k of
                  Absent \<Rightarrow> Inr None
                | Member h \<Rightarrow> Inr (Some (Inherited h))
                | GetterThrows \<Rightarrow> Inl TypeError))"

text \<open>\<^verbatim>\<open>obj[k] = v\<close>. An own property is overwritten. Otherwise \<^verbatim>\<open>__proto__\<close> reaches the
  setter of \<^verbatim>\<open>Object.prototype\<close>, which makes an object \<open>v\<close> the new prototype and
  ignores a primitive \<open>v\<close>; any other name creates an own property when the chain
  allows it and throws when it does not.\<close>

definition obj_assign ::
  "('v \<Rightarrow> bool) \<Rightarrow> ('v proto \<Rightarrow> string \<Rightarrow> bool) \<Rightarrow> 'v jsobject \<Rightarrow> string \<Rightarrow> 'v \<Rightarrow> error + 'v jsobject" where
  "obj_assign is_obj can_assign obj k v =
     (case own obj k of
        Some old \<Rightarrow> Inr (obj\<lparr>own := (own obj)(k \<mapsto> v)\<rparr>)
      | None \<Rightarrow>
          if k = ''__proto__'' then Inr (if is_obj v then obj\<lparr>proto := ValueProto v\<rparr> else obj)
          else if can_assign (proto obj) k then Inr (obj\<lparr>own := (own obj)(k \<mapsto> v)\<rparr>)
          else Inl TypeError)"

text \<open>JavaScript truthiness: of the values the module stores only the empty string is
  falsy; a prototype is an object and truthy.\<close>

fun truthy_entry :: "'r entry \<Rightarrow> bool" where
  "truthy_entry (Output (OutStr t)) = (t \<noteq> [])"
| "truthy_entry (Output (OutArr ts)) = True"
| "truthy_entry (Predicate re) = True"

fun truthy :: "('r, 'h) host \<Rightarrow> ('r, 'h) jsvalue \<Rightarrow> bool" where
  "truthy H (Stored v) = truthy_entry v"
| "truthy H (PrototypeOf P) = True"
| "truthy H (Inherited h) = host_truthy H h"

text \<open>The state of the module: the two objects of lines 8 and 9, the number of regular
  expression instances created so far (the next instance gets this identity), and the
  calls made on the engine.\<close>

record 'r state =
  cache :: "'r entry jsobject"
  makeReCache :: "'r regexp jsobject"
  next_ident :: nat
  engine_log :: "engine_call list"

definition empty_object :: "'v jsobject" where
  "empty_object = \<lparr>own = Map.empty, proto = ObjectPrototype\<rparr>"

definition init_state :: "'r state" where
  "init_state = \<lparr>cache = empty_object, makeReCache = empty_object, next_ident = 0, engine_log = []\<rparr>"

definition log_call :: "engine_call \<Rightarrow> 'r state \<Rightarrow> 'r state" where
  "log_call c s = s\<lparr>engine_log := engine_log s @ [c]\<rparr>"

subsection \<open>braces.compile (lines 32-44)\<close>

definition unescape_output :: "('a, 'r) engine \<Rightarrow> options option \<Rightarrow> compiled_output \<Rightarrow> compiled_output" where
  "unescape_output E options out =
     (case out of
        OutStr t \<Rightarrow> OutStr (utils_unescape E t options)
      | OutArr ts \<Rightarrow> OutArr (map (\<lambda>str. utils_unescape E str options) ts))"

definition compile :: "('a, 'r) engine \<Rightarrow> string \<Rightarrow> options option \<Rightarrow> 'r state \<Rightarrow> (error + compiled) \<times> 'r state" where
  "compile E str options s =
     (let s1 = log_call (NewBraces options) s;
          s2 = log_call (Parse (utils_escape E str options) options) s1
      in case Braces_parse E options (utils_escape E str options) options of
           Inl e \<Rightarrow> (Inl e, s2)
         | Inr ast \<Rightarrow>
             (let s3 = log_call (Compile options) s2
              in case Braces_compile E options ast options of
                   Inl e \<Rightarrow> (Inl e, s3)
                 | Inr compiled \<Rightarrow>
                     (Inr (compiled\<lparr>output_val := unescape_output E options (output_val compiled)\<rparr>), s3)))"

subsection \<open>braces (lines 25-30)\<close>

text \<open>Line 26 reads \<^verbatim>\<open>cache[str]\<close> through the prototype chain and returns whatever truthy
  value it finds. Lines 27-29 compile, assign \<^verbatim>\<open>cache[str]\<close> and return the output.\<close>

definition braces ::
  "('r, 'h) host \<Rightarrow> ('a, 'r) engine \<Rightarrow> string \<Rightarrow> options option \<Rightarrow> 'r state
     \<Rightarrow> (error + ('r, 'h) jsvalue) \<times> 'r state" where
  "braces H E str options s =
     (let miss =
        (case compile E str options s of
           (Inl e, s1) \<Rightarrow> (Inl e, s1)
         | (Inr result, s1) \<Rightarrow>
             (case obj_assign is_object (assignable H) (cache s1) str (Output (output_val result)) of
                Inl e \<Rightarrow> (Inl e, s1)
              | Inr c \<Rightarrow> (Inr (Stored (Output (output_val result))), s1\<lparr>cache := c\<rparr>)))
      in case cache_get H (cache s) str of
           Inl e \<Rightarrow> (Inl e, s)
         | Inr None \<Rightarrow> miss
         | Inr (Some v) \<Rightarrow> if truthy H v then (Inr v, s) else miss)"

subsection \<open>braces.expand (lines 46-51)\<close>

text \<open>Modelled from the spec: \<^verbatim>\<open>utils.extend\<close> lives in \<^verbatim>\<open>lib/utils.js\<close>, which is not
  part of the sources at hand. The spec describes it as a shallow merge of its
  arguments in which later objects win. Assigning a property that exists keeps its
  place in the enumeration order; a new property is appended (property names that are
  array indices, which JavaScript enumerates first, are not considered). An argument
  that is \<^verbatim>\<open>undefined\<close> contributes nothing.\<close>

fun assign_prop :: "options \<Rightarrow> string \<times> oval \<Rightarrow> options" where
  "assign_prop [] pv = [pv]"
| "assign_prop (q # qs) pv = (if fst q = fst pv then pv # qs else q # assign_prop qs pv)"

definition extend :: "options \<Rightarrow> options option \<Rightarrow> options \<Rightarrow> options" where
  "extend target options forced = foldl assign_prop (foldl assign_prop target (or_empty options)) forced"

text \<open>Line 47: \<^verbatim>\<open>utils.extend({unescape: true}, options, {expand: true, makeRe: false})\<close>\<close>

definition expand_opts :: "options option \<Rightarrow> options" where
  "expand_opts options =
     extend [(''unescape'', OBool True)] options [(''expand'', OBool True), (''makeRe'', OBool False)]"

definition expand :: "('a, 'r) engine \<Rightarrow> string \<Rightarrow> options option \<Rightarrow> 'r state \<Rightarrow> (error + compiled_output) \<times> 'r state" where
  "expand E str options s =
     (let opts = expand_opts options
      in if str = [] \<or> length str \<le> 2 then (Inr (OutArr [str]), s)
         else case compile E str (Some opts) s of
                (Inl e, s1) \<Rightarrow> (Inl e, s1)
              | (Inr result, s1) \<Rightarrow> (Inr (output_val result), s1))"

subsection \<open>braces.makeRe (lines 177-196)\<close>

text \<open>Line 190 is \<^verbatim>\<open>options.cache !== false && makeReCache.hasOwnProperty(key)\<close>. The
  method call is made only when the flag allows the read. It finds an own property
  named \<^verbatim>\<open>hasOwnProperty\<close> first: such a property holds a regular expression, and calling
  it throws. Otherwise it is the method of \<^verbatim>\<open>Object.prototype\<close>, and on \<^verbatim>\<open>true\<close> line 191
  returns the own property. Line 194 creates the instance, assigns it and returns
  it.\<close>

definition makeRe ::
  "('r, 'h) host \<Rightarrow> ('a, 'r) engine \<Rightarrow> string \<Rightarrow> options option \<Rightarrow> 'r state
     \<Rightarrow> (error + 'r regexp) \<times> 'r state" where
  "makeRe H E pattern options s =
     (case cache_key pattern options of
        Inl e \<Rightarrow> (Inl e, s)
      | Inr key \<Rightarrow>
          (let opts = or_empty options;
               build =
                 (let s1 = log_call (MakeRe pattern) (log_call (NewBraces (Some opts)) s)
                  in case Braces_makeRe E opts pattern of
                       Inl e \<Rightarrow> (Inl e, s1)
                     | Inr r \<Rightarrow>
                         (let regex = RegExp (next_ident s1) r;
                              s2 = s1\<lparr>next_ident := Suc (next_ident s1)\<rparr>
                          in case obj_assign (\<lambda>v. True) (re_assignable H) (makeReCache s2) key regex of
                               Inl e \<Rightarrow> (Inl e, s2)
                             | Inr c \<Rightarrow> (Inr regex, s2\<lparr>makeReCache := c\<rparr>)))
           in if opt_get opts ''cache'' \<noteq> OBool False
              then (case own (makeReCache s) ''hasOwnProperty'' of
                      Some shadow \<Rightarrow> (Inl TypeError, s)
                    | None \<Rightarrow>
                        (case own (makeReCache s) key of
                           Some regex \<Rightarrow> (Inr regex, s)
                         | None \<Rightarrow> build))
              else build))"

subsection \<open>braces.matcher (lines 154-160)\<close>

text \<open>The function returned is represented by the regular expression it closes over;
  \<open>call_matcher\<close> is its body, \<^verbatim>\<open>re.test(str)\<close>.\<close>

definition matcher ::
  "('r, 'h) host \<Rightarrow> ('a, 'r) engine \<Rightarrow> string \<Rightarrow> options option \<Rightarrow> 'r state
     \<Rightarrow> (error + 'r regexp) \<times> 'r state" where
  "matcher H E pattern options s =
     (case makeRe H E pattern options s of
        (Inl e, s1) \<Rightarrow> (Inl e, s1)
      | (Inr re, s1) \<Rightarrow> (Inr re, s1))"

definition call_matcher :: "('a, 'r) engine \<Rightarrow> 'r regexp \<Rightarrow> string \<Rightarrow> bool" where
  "call_matcher E re str = RegExp_test E (body re) str"

subsection \<open>braces.isMatch (lines 115-133)\<close>

text \<open>\<^verbatim>\<open>cache.hasOwnProperty(key)\<close> (line 127). An own property named \<^verbatim>\<open>hasOwnProperty\<close>
  is found first and called with the key: a stored function answers with its
  \<^verbatim>\<open>re.test(key)\<close>, a stored output is not a function. Otherwise the method of
  \<^verbatim>\<open>Object.prototype\<close> says whether the key is an own property.\<close>

definition cache_hasOwnProperty :: "('a, 'r) engine \<Rightarrow> 'r entry jsobject \<Rightarrow> string \<Rightarrow> error + bool" where
  "cache_hasOwnProperty E obj key =
     (case own obj ''hasOwnProperty'' of
        Some (Predicate re) \<Rightarrow> Inr (call_matcher E re key)
      | Some (Output out) \<Rightarrow> Inl TypeError
      | None \<Rightarrow> Inr (own obj key \<noteq> None))"

text \<open>\<^verbatim>\<open>matcher(str)\<close> (line 132) on whatever \<^verbatim>\<open>cache[key]\<close> yielded: calling \<^verbatim>\<open>undefined\<close>,
  a stored output or a prototype that is not a function throws a \<^verbatim>\<open>TypeError\<close>.\<close>

fun call_value :: "('r, 'h) host \<Rightarrow> ('a, 'r) engine \<Rightarrow> ('r, 'h) jsvalue option \<Rightarrow> string \<Rightarrow> error + 'h answer" where
  "call_value H E None str = Inl TypeError"
| "call_value H E (Some (Stored (Predicate re))) str = Inr (Bool (call_matcher E re str))"
| "call_value H E (Some (Stored (Output out))) str = Inl TypeError"
| "call_value H E (Some (PrototypeOf (ValueProto (Predicate re)))) str = Inr (Bool (call_matcher E re str))"
| "call_value H E (Some (PrototypeOf (ValueProto (Output out)))) str = Inl TypeError"
| "call_value H E (Some (PrototypeOf ObjectPrototype)) str = Inl TypeError"
| "call_value H E (Some (Inherited h)) str = host_call H h str"

definition isMatch ::
  "('r, 'h) host \<Rightarrow> ('a, 'r) engine \<Rightarrow> string \<Rightarrow> string \<Rightarrow> options option \<Rightarrow> 'r state
     \<Rightarrow> (error + 'h answer) \<times> 'r state" where
  "isMatch H E str pattern options s =
     (case cache_key pattern options of
        Inl e \<Rightarrow> (Inl e, s)
      | Inr key \<Rightarrow>
          (case cache_hasOwnProperty E (cache s) key of
             Inl e \<Rightarrow> (Inl e, s)
           | Inr True \<Rightarrow>
               (case cache_get H (cache s) key of
                  Inl e \<Rightarrow> (Inl e, s)
                | Inr m \<Rightarrow> (call_value H E m str, s))
           | Inr False \<Rightarrow>
               (case matcher H E pattern options s of
                  (Inl e, s1) \<Rightarrow> (Inl e, s1)
                | (Inr m, s1) \<Rightarrow>
                    (case obj_assign is_object (assignable H) (cache s1) key (Predicate m) of
                       Inl e \<Rightarrow> (Inl e, s1)
                     | Inr c \<Rightarrow> (Inr (Bool (call_matcher E m str)), s1\<lparr>cache := c\<rparr>)))))"

subsection \<open>braces.match (lines 69-94)\<close>

text \<open>Modelled from the spec: \<^verbatim>\<open>utils.arrayify\<close> lives in \<^verbatim>\<open>lib/utils.js\<close>, which is not
  part of the sources at hand. The spec describes it as coercing its argument into an
  ordered sequence, a single scalar being promoted to a one-element sequence.\<close>

datatype candidates = Single string | Many "string list"

fun arrayify :: "candidates \<Rightarrow> string list" where
  "arrayify (Single str) = [str]"
| "arrayify (Many arr) = arr"

text \<open>The loop of lines 78-83: \<^verbatim>\<open>while (++idx < len) { var ele = arr[idx];
  if (isMatch(ele)) res.push(ele); }\<close>, entered with \<^verbatim>\<open>idx = -1\<close> and \<^verbatim>\<open>res = []\<close>;
  the local \<^verbatim>\<open>isMatch\<close> is \<open>is_match\<close> here.\<close>

function match_loop :: "(string \<Rightarrow> bool) \<Rightarrow> string list \<Rightarrow> int \<Rightarrow> string list \<Rightarrow> string list" where
  "match_loop is_match arr idx res =
     (if idx + 1 < int (length arr)
      then match_loop is_match arr (idx + 1)
             (if is_match (arr ! nat (idx + 1)) then res @ [arr ! nat (idx + 1)] else res)
      else res)"
  by pat_completeness auto
termination
  by (relation "measure (\<lambda>(is_match, arr, idx, res). nat (int (length arr) - idx))") auto

declare match_loop.simps [simp del]

text \<open>\<^verbatim>\<open>pattern.split('\\').join('')\<close>: the pattern without its backslashes.\<close>

definition strip_backslashes :: "string \<Rightarrow> string" where
  "strip_backslashes pattern = filter (\<lambda>c. c \<noteq> CHR 0x5C) pattern"

definition no_match_message :: "string \<Rightarrow> string" where
  "no_match_message pattern = ''no matches found for '' @ [CHR 0x22] @ pattern @ [CHR 0x22]"

definition match ::
  "('r, 'h) host \<Rightarrow> ('a, 'r) engine \<Rightarrow> candidates \<Rightarrow> string \<Rightarrow> options option \<Rightarrow> 'r state
     \<Rightarrow> (error + string list) \<times> 'r state" where
  "match H E arr pattern options s =
     (let arr1 = arrayify arr;
          opts = or_empty options
      in case matcher H E pattern (Some opts) s of
           (Inl e, s1) \<Rightarrow> (Inl e, s1)
         | (Inr is_match, s1) \<Rightarrow>
             (let res = match_loop (call_matcher E is_match) arr1 (- 1) []
              in if length res = 0
                 then (if opt_get opts ''failglob'' = OBool True
                       then (Inl (Error (no_match_message pattern)), s1)
                       else if opt_get opts ''nonull'' = OBool True \<or> opt_get opts ''nullglob'' = OBool True
                       then (Inr [strip_backslashes pattern], s1)
                       else (Inr res, s1))
                 else (Inr res, s1)))"

subsection \<open>A concrete engine for running the functions\<close>

text \<open>An engine for patterns without braces: a pattern denotes itself. Escaping changes
  nothing, the syntax tree is the pattern, the output is the pattern (in expand mode the
  one-element array holding it), the regular expression matches the pattern exactly.
  It is used to run the functions above on concrete inputs.\<close>

definition literal_engine :: "(string, string) engine" where
  "literal_engine =
     \<lparr>utils_escape = (\<lambda>str options. str),
      utils_unescape = (\<lambda>str options. str),
      Braces_parse = (\<lambda>ctor_options str options. Inr str),
      Braces_compile = (\<lambda>ctor_options ast options.
         Inr \<lparr>output_val = (if opt_get (or_empty options) ''expand'' = OBool True
                             then OutArr [ast] else OutStr ast)\<rparr>),
      Braces_makeRe = (\<lambda>opts pattern. Inr pattern),
      RegExp_test = (\<lambda>r str. r = str)\<rparr>"

subsection \<open>A concrete host for running the functions\<close>

text \<open>The members of \<^verbatim>\<open>Object.prototype\<close> other than \<^verbatim>\<open>__proto__\<close>: all of them are
  writable properties holding functions.\<close>

definition object_prototype_members :: "string list" where
  "object_prototype_members =
     [''constructor'', ''hasOwnProperty'', ''isPrototypeOf'', ''propertyIsEnumerable'',
      ''toLocaleString'', ''toString'', ''valueOf'', ''__defineGetter__'', ''__defineSetter__'',
      ''__lookupGetter__'', ''__lookupSetter__'']"

text \<open>A host given by \<^verbatim>\<open>Object.prototype\<close> alone. An inherited value is named after the
  member; all are truthy; every name can be assigned. Called as \<^verbatim>\<open>matcher(str)\<close>, with
  no \<^verbatim>\<open>this\<close>, the members behave as ECMAScript 2017 specifies: \<^verbatim>\<open>constructor\<close> returns a
  wrapper object, \<^verbatim>\<open>toString\<close> returns a string, \<^verbatim>\<open>isPrototypeOf\<close> returns \<^verbatim>\<open>false\<close> and the
  others throw. For an object whose prototype
  has been replaced this host lists only what the end of every chain,
  \<^verbatim>\<open>Object.prototype\<close>, contributes; none of the runs below reads an inherited member of
  such an object.\<close>

definition standard_host :: "('r, string) host" where
  "standard_host =
     \<lparr>inherited = (\<lambda>P k. if k \<in> set object_prototype_members then Member k else Absent),
      assignable = (\<lambda>P k. True),
      re_assignable = (\<lambda>P k. True),
      host_truthy = (\<lambda>h. True),
      host_call = (\<lambda>h str.
         if h = ''constructor'' then Inr (HostAnswer ''new String(str)'')
         else if h = ''toString'' then Inr (HostAnswer ''[object Undefined]'')
         else if h = ''isPrototypeOf'' then Inr (Bool False)
         else Inl TypeError)\<rparr>"

section \<open>Auxiliary facts\<close>

subsection \<open>The loop of braces.match is a filter\<close>

lemma match_loop_filter:
  "- 1 \<le> idx \<Longrightarrow> match_loop f arr idx res = res @ filter f (drop (nat (idx + 1)) arr)"
proof (induction f arr idx res rule: match_loop.induct)
  case (1 f arr idx res)
  show ?case
  proof (cases "idx + 1 < int (length arr)")
    case True
    then have n: "nat (idx + 1) < length arr" using "1.prems" by linarith
    have e: "nat (idx + 1 + 1) = Suc (nat (idx + 1))" using "1.prems" by linarith
    have d: "drop (nat (idx + 1)) arr = arr ! nat (idx + 1) # drop (nat (idx + 1 + 1)) arr"
      unfolding e using n by (rule Cons_nth_drop_Suc [symmetric])
    have "match_loop f arr idx res = match_loop f arr (idx + 1)
             (if f (arr ! nat (idx + 1)) then res @ [arr ! nat (idx + 1)] else res)"
      using True by (subst match_loop.simps) simp
    also have "\<dots> = (if f (arr ! nat (idx + 1)) then res @ [arr ! nat (idx + 1)] else res)
                      @ filter f (drop (nat (idx + 1 + 1)) arr)"
      using "1.IH"[OF True] "1.prems" by simp
    finally show ?thesis using d by simp
  next
    case False
    then have "drop (nat (idx + 1)) arr = []" by simp
    moreover have "match_loop f arr idx res = res"
      using False by (subst match_loop.simps) simp
    ultimately show ?thesis by simp
  qed
qed

lemma match_loop_from_start: "match_loop f arr (- 1) [] = filter f arr"
  using match_loop_filter [of "- 1" f arr "[]"] by simp

subsection \<open>braces.match after the matcher is built\<close>

lemma match_result:
  assumes "matcher H E pattern (Some (or_empty options)) s = (Inr re, s1)"
  shows "match H E arr pattern options s =
     (let res = filter (call_matcher E re) (arrayify arr); opts = or_empty options
      in if res = []
         then (if opt_get opts ''failglob'' = OBool True
               then (Inl (Error (no_match_message pattern)), s1)
               else if opt_get opts ''nonull'' = OBool True \<or> opt_get opts ''nullglob'' = OBool True
               then (Inr [strip_backslashes pattern], s1)
               else (Inr [], s1))
         else (Inr res, s1))"
  using assms by (simp add: match_def Let_def match_loop_from_start)

subsection \<open>The two paths of braces\<close>

lemma compile_frame:
  "cache (snd (compile E str options s)) = cache s \<and>
   makeReCache (snd (compile E str options s)) = makeReCache s \<and>
   next_ident (snd (compile E str options s)) = next_ident s"
  by (simp add: compile_def log_call_def Let_def split: sum.splits)

lemma braces_hit:
  "cache_get H (cache s) str = Inr (Some v) \<Longrightarrow> truthy H v \<Longrightarrow> braces H E str options s = (Inr v, s)"
  by (simp add: braces_def Let_def)

lemma braces_miss:
  "cache_get H (cache s) str = Inr None \<or> (\<exists>w. cache_get H (cache s) str = Inr (Some w) \<and> \<not> truthy H w) \<Longrightarrow>
   braces H E str options s =
     (case compile E str options s of
        (Inl e, s1) \<Rightarrow> (Inl e, s1)
      | (Inr result, s1) \<Rightarrow>
          (case obj_assign is_object (assignable H) (cache s1) str (Output (output_val result)) of
             Inl e \<Rightarrow> (Inl e, s1)
           | Inr c \<Rightarrow> (Inr (Stored (Output (output_val result))), s1\<lparr>cache := c\<rparr>)))"
  by (auto simp: braces_def Let_def)

lemma braces_cases:
  "(\<exists>v. cache_get H (cache s) str = Inr (Some v) \<and> truthy H v)
   \<or> (\<exists>e. cache_get H (cache s) str = Inl e)
   \<or> cache_get H (cache s) str = Inr None \<or> (\<exists>w. cache_get H (cache s) str = Inr (Some w) \<and> \<not> truthy H w)"
  by (cases "cache_get H (cache s) str") (auto split: option.splits)

lemma assign_after_miss:
  assumes "obj_assign is_object (assignable H) obj k v = Inr c"
    and "cache_get H obj k = Inr None \<or> (\<exists>w. cache_get H obj k = Inr (Some w) \<and> \<not> truthy H w)"
  shows "c = obj\<lparr>own := (own obj)(k \<mapsto> v)\<rparr>"
  using assms
  by (auto simp: obj_assign_def cache_get_def split: option.splits if_splits)

lemma cache_get_own: "own obj k = Some v \<Longrightarrow> cache_get H obj k = Inr (Some (Stored v))"
  by (simp add: cache_get_def)

lemma braces_miss_result:
  assumes miss: "cache_get H (cache s) p = Inr None \<or> (\<exists>w. cache_get H (cache s) p = Inr (Some w) \<and> \<not> truthy H w)"
    and ret: "braces H E p options s = (Inr v, s1)"
  obtains result :: compiled and s0 where "compile E p options s = (Inr result, s0)"
    and "v = Stored (Output (output_val result))"
    and "s1 = s0\<lparr>cache := (cache s0)\<lparr>own := (own (cache s0))(p \<mapsto> Output (output_val result))\<rparr>\<rparr>"
proof -
  obtain r s0 where c: "compile E p options s = (r, s0)" by (cases "compile E p options s")
  have cs: "cache s0 = cache s" using compile_frame [of E p options s] c by simp
  from ret braces_miss [OF miss, of E options] c obtain result where r: "r = Inr result"
    by (cases r) auto
  from ret braces_miss [OF miss, of E options] c r obtain c' where
    a: "obj_assign is_object (assignable H) (cache s0) p (Output (output_val result)) = Inr c'"
    and v: "v = Stored (Output (output_val result))" and s1: "s1 = s0\<lparr>cache := c'\<rparr>"
    by (cases "obj_assign is_object (assignable H) (cache s0) p (Output (output_val result))") auto
  have "c' = (cache s0)\<lparr>own := (own (cache s0))(p \<mapsto> Output (output_val result))\<rparr>"
    using assign_after_miss [OF a] miss cs by simp
  with c r v s1 show ?thesis by (intro that [of result s0]) simp_all
qed

subsection \<open>The options braces.expand passes on\<close>

lemma map_of_assign_prop: "map_of (assign_prop qs pv) = (map_of qs)(fst pv \<mapsto> snd pv)"
  by (induction qs) (auto simp: fun_eq_iff)

lemma map_of_foldl_assign_prop_absent:
  "k \<notin> fst ` set ps \<Longrightarrow> map_of (foldl assign_prop qs ps) k = map_of qs k"
  by (induction ps arbitrary: qs) (auto simp: map_of_assign_prop)

lemma map_of_foldl_assign_prop_present:
  "distinct (map fst ps) \<Longrightarrow> map_of ps k = Some v \<Longrightarrow> map_of (foldl assign_prop qs ps) k = Some v"
proof (induction ps arbitrary: qs)
  case Nil
  then show ?case by simp
next
  case (Cons p ps)
  show ?case
  proof (cases "fst p = k")
    case True
    then have "k \<notin> fst ` set ps" and "snd p = v" using Cons.prems by auto
    then show ?thesis using True
      by (simp add: map_of_foldl_assign_prop_absent map_of_assign_prop)
  next
    case False
    then show ?thesis using Cons by (cases p) auto
  qed
qed

lemma expand_opts_forced:
  "opt_get (expand_opts options) ''expand'' = OBool True \<and>
   opt_get (expand_opts options) ''makeRe'' = OBool False"
  by (simp add: expand_opts_def extend_def opt_get_def map_of_assign_prop)

lemma expand_opts_unescape:
  assumes "distinct (map fst (or_empty options))"
  shows "opt_get (expand_opts options) ''unescape'' =
           (case map_of (or_empty options) ''unescape'' of None \<Rightarrow> OBool True | Some v \<Rightarrow> v)"
proof (cases "map_of (or_empty options) ''unescape''")
  case None
  then have "''unescape'' \<notin> fst ` set (or_empty options)" by (simp add: map_of_eq_None_iff)
  then show ?thesis using None
    by (simp add: expand_opts_def extend_def opt_get_def map_of_assign_prop
        map_of_foldl_assign_prop_absent)
next
  case (Some v)
  then show ?thesis using assms
    by (simp add: expand_opts_def extend_def opt_get_def map_of_assign_prop
        map_of_foldl_assign_prop_present)
qed

subsection \<open>Runs on the concrete host and engine\<close>

lemmas run_simps = braces_def compile_def isMatch_def matcher_def makeRe_def cache_key_def key_step_def
  cache_get_def obj_assign_def cache_hasOwnProperty_def call_matcher_def log_call_def
  unescape_output_def opt_get_def or_empty_def literal_engine_def standard_host_def
  object_prototype_members_def init_state_def empty_object_def Let_def

text \<open>
  A pattern that names a member of \<^verbatim>\<open>Object.prototype\<close>: line 26 finds the inherited
  function and \<open>braces\<close> returns it; the engine is not called and nothing is stored.
\<close>

lemma braces_constructor:
  "braces standard_host literal_engine ''constructor'' None (init_state :: string state)
     = (Inr (Inherited ''constructor''), init_state)"
  by (simp add: run_simps)

text \<open>
  Options with an own property \<^verbatim>\<open>hasOwnProperty\<close>: the key loop of \<open>makeRe\<close> throws
  before anything is built or stored.
\<close>

lemma makeRe_options_hasOwnProperty_throws:
  "makeRe standard_host literal_engine ''a'' (Some [(''cache'', OBool False), (''hasOwnProperty'', OBool True)])
     (init_state :: string state) = (Inl TypeError, init_state)"
  by (simp add: makeRe_def cache_key_def)

section \<open>Properties\<close>

subsection \<open>The cache of braces and the options\<close>

text \<open>
  C1, as stated, fails. The claim is that for every pattern the second of two calls
  \<^verbatim>\<open>braces(p, optsA)\<close>, \<^verbatim>\<open>braces(p, optsB)\<close> returns the output computed under
  \<^verbatim>\<open>optsA\<close>. Line 26 tests \<^verbatim>\<open>cache[str]\<close> for truthiness: with the empty pattern the
  first call (\<^verbatim>\<open>expand: false\<close>) computes and stores the empty string, which is falsy, so
  the second call (\<^verbatim>\<open>expand: true\<close>) compiles again and returns the array holding the
  empty string.
\<close>

theorem braces_options_blind_counterexample:
  "fst (braces standard_host literal_engine [] (Some [(''expand'', OBool False)]) (init_state :: string state))
     = Inr (Stored (Output (OutStr []))) \<and>
   fst (braces standard_host literal_engine [] (Some [(''expand'', OBool True)])
          (snd (braces standard_host literal_engine [] (Some [(''expand'', OBool False)]) (init_state :: string state))))
     = Inr (Stored (Output (OutArr [[]]))) \<and>
   fst (braces standard_host literal_engine [] (Some [(''expand'', OBool True)])
          (snd (braces standard_host literal_engine [] (Some [(''expand'', OBool False)]) (init_state :: string state))))
     \<noteq> fst (braces standard_host literal_engine [] (Some [(''expand'', OBool False)]) (init_state :: string state))"
  by (simp add: run_simps)

text \<open>
  C1 (amended). For every pattern \<open>p\<close> and all options \<open>optsA\<close>, \<open>optsB\<close>: when
  \<^verbatim>\<open>braces(p, optsA)\<close> returns a truthy value (anything but the empty string), the call
  \<^verbatim>\<open>braces(p, optsB)\<close> that follows returns the same value and leaves the state, the log
  of engine calls included, as it is: \<open>optsB\<close> is ignored. When the read of \<^verbatim>\<open>cache[p]\<close>
  in the first call found nothing truthy, neither an own property nor an inherited
  one, that value is the output \<open>compile\<close> computed under \<open>optsA\<close>.
\<close>

theorem braces_options_blind_when_truthy:
  assumes "braces H E p optsA s = (Inr v, s1)" and "truthy H v"
  shows "braces H E p optsB s1 = (Inr v, s1) \<and>
         (cache_get H (cache s) p = Inr None \<or> (\<exists>w. cache_get H (cache s) p = Inr (Some w) \<and> \<not> truthy H w) \<longrightarrow>
            (\<exists>result. fst (compile E p optsA s) = Inr result \<and> v = Stored (Output (output_val result))))"
proof
  consider (hit) w where "cache_get H (cache s) p = Inr (Some w)" "truthy H w"
    | (err) e where "cache_get H (cache s) p = Inl e"
    | (miss) "cache_get H (cache s) p = Inr None \<or> (\<exists>w. cache_get H (cache s) p = Inr (Some w) \<and> \<not> truthy H w)"
    using braces_cases [of H s p] by blast
  then show "braces H E p optsB s1 = (Inr v, s1)"
  proof cases
    case hit
    then have "braces H E p optsA s = (Inr w, s)" by (rule braces_hit)
    with assms(1) have "v = w" "s1 = s" by simp_all
    with hit show ?thesis by (simp add: braces_hit)
  next
    case err
    then have "fst (braces H E p optsA s) = Inl e" by (simp add: braces_def Let_def)
    with assms(1) show ?thesis by simp
  next
    case miss
    obtain result :: compiled and s0 where
      v: "v = Stored (Output (output_val result))"
      and s1: "s1 = s0\<lparr>cache := (cache s0)\<lparr>own := (own (cache s0))(p \<mapsto> Output (output_val result))\<rparr>\<rparr>"
      using miss assms(1) by (rule braces_miss_result)
    from s1 have "own (cache s1) p = Some (Output (output_val result))" by simp
    then have "cache_get H (cache s1) p = Inr (Some v)" using v by (simp add: cache_get_own)
    then show ?thesis using assms(2) by (rule braces_hit)
  qed
next
  show "cache_get H (cache s) p = Inr None \<or> (\<exists>w. cache_get H (cache s) p = Inr (Some w) \<and> \<not> truthy H w) \<longrightarrow>
            (\<exists>result. fst (compile E p optsA s) = Inr result \<and> v = Stored (Output (output_val result)))"
  proof
    assume "cache_get H (cache s) p = Inr None \<or> (\<exists>w. cache_get H (cache s) p = Inr (Some w) \<and> \<not> truthy H w)"
    then obtain result :: compiled and s0 where "compile E p optsA s = (Inr result, s0)"
      and "v = Stored (Output (output_val result))"
      using assms(1) by (rule braces_miss_result)
    then show "\<exists>result. fst (compile E p optsA s) = Inr result \<and> v = Stored (Output (output_val result))"
      by auto
  qed
qed

theorem braces_options_blind_when_truthy_witness:
  "braces standard_host literal_engine ''a,b'' (Some [(''expand'', OBool True)])
     (snd (braces standard_host literal_engine ''a,b'' None (init_state :: string state)))
   = (Inr (Stored (Output (OutStr ''a,b''))),
      snd (braces standard_host literal_engine ''a,b'' None (init_state :: string state)))"
proof -
  have f: "fst (braces standard_host literal_engine ''a,b'' None (init_state :: string state))
             = Inr (Stored (Output (OutStr ''a,b'')))"
    by (simp add: braces_def compile_def cache_get_def obj_assign_def log_call_def unescape_output_def
        opt_get_def or_empty_def literal_engine_def standard_host_def object_prototype_members_def
        init_state_def empty_object_def Let_def)
  have h: "braces standard_host literal_engine ''a,b'' None (init_state :: string state)
             = (Inr (Stored (Output (OutStr ''a,b''))),
                snd (braces standard_host literal_engine ''a,b'' None init_state))"
    using f by (simp add: prod_eq_iff)
  have t: "truthy standard_host (Stored (Output (OutStr ''a,b'')) :: (string, string) jsvalue)" by simp
  show ?thesis
    using braces_options_blind_when_truthy [OF h t, of "Some [(''expand'', OBool True)]"]
    by simp
qed

subsection \<open>One object for compiled outputs and for predicates\<close>

text \<open>
  C2. The claim is that the predicates of \<^verbatim>\<open>braces.isMatch\<close> live in a store of their
  own, so that \<^verbatim>\<open>braces(p)\<close> followed by \<^verbatim>\<open>braces.isMatch(s, p)\<close> without options
  returns a boolean. In the source both functions use the object \<^verbatim>\<open>cache\<close> of line 9, and
  without options the key of \<^verbatim>\<open>isMatch\<close> is the pattern itself. After \<^verbatim>\<open>braces('ab')\<close>
  the property \<^verbatim>\<open>cache['ab']\<close> holds the string \<^verbatim>\<open>'ab'\<close>; \<^verbatim>\<open>isMatch('ab', 'ab')\<close> finds it
  with \<^verbatim>\<open>hasOwnProperty\<close> (line 127) and calls it (line 132), which throws a
  \<^verbatim>\<open>TypeError\<close>.
\<close>

theorem isMatch_after_braces_throws:
  "fst (braces standard_host literal_engine ''ab'' None (init_state :: string state))
     = Inr (Stored (Output (OutStr ''ab''))) \<and>
   fst (isMatch standard_host literal_engine ''ab'' ''ab'' None
          (snd (braces standard_host literal_engine ''ab'' None (init_state :: string state))))
     = Inl TypeError"
  by (simp add: run_simps)

subsection \<open>The options of braces.expand\<close>

text \<open>
  C3, as stated, fails. The claim is that \<open>expand\<close> passes \<^verbatim>\<open>unescape: true\<close> to
  \<^verbatim>\<open>braces.compile\<close> whatever the caller supplied. In line 47 \<^verbatim>\<open>{unescape: true}\<close> is the
  first argument of \<^verbatim>\<open>utils.extend\<close>, before the caller's options, so a caller's
  \<^verbatim>\<open>unescape: false\<close> replaces it: the engine is constructed and called with
  \<^verbatim>\<open>unescape: false\<close>.
\<close>

theorem expand_unescape_counterexample:
  "opt_get (expand_opts (Some [(''unescape'', OBool False)])) ''unescape'' = OBool False \<and>
   engine_log (snd (expand literal_engine ''{a}'' (Some [(''unescape'', OBool False)])
                      (init_state :: string state))) =
     [NewBraces (Some [(''unescape'', OBool False), (''expand'', OBool True), (''makeRe'', OBool False)]),
      Parse ''{a}'' (Some [(''unescape'', OBool False), (''expand'', OBool True), (''makeRe'', OBool False)]),
      Compile (Some [(''unescape'', OBool False), (''expand'', OBool True), (''makeRe'', OBool False)])]"
  by (simp add: expand_def expand_opts_def extend_def or_empty_def opt_get_def compile_def
      log_call_def Let_def literal_engine_def init_state_def empty_object_def)

text \<open>
  C3 (amended). For every pattern of length greater than 2 and every options argument,
  \<open>expand\<close> returns the output of \<open>compile\<close> called with the merged options, in which
  \<^verbatim>\<open>expand\<close> is \<^verbatim>\<open>true\<close> and \<^verbatim>\<open>makeRe\<close> is \<^verbatim>\<open>false\<close> whatever the caller supplied for these
  two keys, and \<^verbatim>\<open>unescape\<close> is the caller's value when the caller supplied one and
  \<^verbatim>\<open>true\<close> otherwise (an options object holds each property once).
\<close>

theorem expand_forces_expand_and_makeRe:
  assumes "2 < length p"
  shows "expand E p options s =
           (case compile E p (Some (expand_opts options)) s of
              (Inl e, s1) \<Rightarrow> (Inl e, s1)
            | (Inr result, s1) \<Rightarrow> (Inr (output_val result), s1)) \<and>
         opt_get (expand_opts options) ''expand'' = OBool True \<and>
         opt_get (expand_opts options) ''makeRe'' = OBool False \<and>
         (distinct (map fst (or_empty options)) \<longrightarrow>
            opt_get (expand_opts options) ''unescape'' =
              (case map_of (or_empty options) ''unescape'' of None \<Rightarrow> OBool True | Some v \<Rightarrow> v))"
  using assms expand_opts_forced [of options] expand_opts_unescape [of options]
  by (auto simp: expand_def Let_def)

theorem expand_forces_expand_and_makeRe_witness:
  "opt_get (expand_opts (Some [(''expand'', OBool False), (''unescape'', OBool False), (''makeRe'', OBool True)]))
     ''expand'' = OBool True \<and>
   opt_get (expand_opts (Some [(''expand'', OBool False), (''unescape'', OBool False), (''makeRe'', OBool True)]))
     ''makeRe'' = OBool False \<and>
   opt_get (expand_opts (Some [(''expand'', OBool False), (''unescape'', OBool False), (''makeRe'', OBool True)]))
     ''unescape'' = OBool False \<and>
   fst (expand literal_engine ''a,b''
          (Some [(''expand'', OBool False), (''unescape'', OBool False), (''makeRe'', OBool True)])
          (init_state :: string state))
     = Inr (OutArr [''a,b''])"
proof -
  let ?o = "Some [(''expand'', OBool False), (''unescape'', OBool False), (''makeRe'', OBool True)]"
  have l: "2 < length ''a,b''" by simp
  have d: "distinct (map fst (or_empty ?o))" by (simp add: or_empty_def)
  have c: "fst (compile literal_engine ''a,b'' (Some (expand_opts ?o)) (init_state :: string state))
             = Inr \<lparr>output_val = OutArr [''a,b'']\<rparr>"
    by (simp add: compile_def log_call_def unescape_output_def opt_get_def or_empty_def
        expand_opts_def extend_def literal_engine_def Let_def)
  note th = expand_forces_expand_and_makeRe [OF l, of literal_engine ?o init_state]
  from th have e: "expand literal_engine ''a,b'' ?o (init_state :: string state) =
           (case compile literal_engine ''a,b'' (Some (expand_opts ?o)) init_state of
              (Inl e, s1) \<Rightarrow> (Inl e, s1)
            | (Inr result, s1) \<Rightarrow> (Inr (output_val result), s1))"
    by blast
  have r: "fst (expand literal_engine ''a,b'' ?o (init_state :: string state)) = Inr (OutArr [''a,b''])"
    unfolding e using c
    by (cases "compile literal_engine ''a,b'' (Some (expand_opts ?o)) (init_state :: string state)") simp
  from th d have "opt_get (expand_opts ?o) ''expand'' = OBool True"
    and "opt_get (expand_opts ?o) ''makeRe'' = OBool False"
    and "opt_get (expand_opts ?o) ''unescape'' = OBool False"
    by (simp_all add: or_empty_def)
  with r show ?thesis by simp
qed

subsection \<open>The short-circuit of braces.expand\<close>

text \<open>
  C4. For every pattern of length at most 2 (the empty string included) and every
  options argument, \<open>expand\<close> returns the one-element sequence holding the pattern, and
  the state, the log of engine calls included, is as before: the pattern engine is not
  invoked.
\<close>

theorem expand_short_pattern:
  "length p \<le> 2 \<Longrightarrow> expand E p options s = (Inr (OutArr [p]), s)"
  by (simp add: expand_def)

theorem expand_short_pattern_witness:
  "length ''{}'' \<le> 2 \<and>
   expand literal_engine ''{}'' (Some [(''expand'', OBool False)]) (init_state :: string state)
     = (Inr (OutArr [''{}'']), init_state)"
  using expand_short_pattern [of "''{}''" literal_engine "Some [(''expand'', OBool False)]" init_state]
  by simp

subsection \<open>The empty-result policy of braces.match\<close>

text \<open>
  C5. Once the matcher is built, \<open>match\<close> returns the retained candidates when there
  are any. Exactly when none is retained: if \<^verbatim>\<open>options.failglob === true\<close> it throws the
  \<^verbatim>\<open>Error\<close> whose message quotes the pattern; otherwise, if \<^verbatim>\<open>options.nonull === true\<close> or
  \<^verbatim>\<open>options.nullglob === true\<close>, it returns the one-element sequence holding the pattern
  without its backslashes; otherwise it returns the empty sequence. The branches are
  tried in this order, so \<^verbatim>\<open>failglob\<close> wins over \<^verbatim>\<open>nonull\<close> and \<^verbatim>\<open>nullglob\<close>.
\<close>

theorem match_empty_result_policy:
  assumes "matcher H E pattern (Some (or_empty options)) s = (Inr re, s1)"
  shows "fst (match H E arr pattern options s) =
     (if filter (call_matcher E re) (arrayify arr) \<noteq> []
      then Inr (filter (call_matcher E re) (arrayify arr))
      else if opt_get (or_empty options) ''failglob'' = OBool True
      then Inl (Error (''no matches found for '' @ [CHR 0x22] @ pattern @ [CHR 0x22]))
      else if opt_get (or_empty options) ''nonull'' = OBool True
              \<or> opt_get (or_empty options) ''nullglob'' = OBool True
      then Inr [filter (\<lambda>c. c \<noteq> CHR 0x5C) pattern]
      else Inr [])"
  using match_result [OF assms, of arr]
  by (simp add: Let_def no_match_message_def strip_backslashes_def)

theorem match_empty_result_policy_witness:
  "fst (match standard_host literal_engine (Many []) ''x{y,z}'' (Some [(''nonull'', OBool True), (''failglob'', OBool True)])
          (init_state :: string state))
     = Inl (Error (''no matches found for '' @ [CHR 0x22] @ ''x{y,z}'' @ [CHR 0x22])) \<and>
   fst (match standard_host literal_engine (Many [''a'']) (''x'' @ [CHR 0x5C] @ ''{y'') (Some [(''nonull'', OBool True)])
          (init_state :: string state))
     = Inr [''x{y'']"
proof -
  let ?o1 = "Some [(''nonull'', OBool True), (''failglob'', OBool True)]"
  let ?o2 = "Some [(''nonull'', OBool True)]"
  let ?p2 = "''x'' @ [CHR 0x5C] @ ''{y''"
  have h1: "matcher standard_host literal_engine ''x{y,z}'' (Some (or_empty ?o1)) (init_state :: string state)
        = (Inr (RegExp 0 ''x{y,z}''),
           snd (matcher standard_host literal_engine ''x{y,z}'' (Some (or_empty ?o1)) init_state))"
    by (simp add: prod_eq_iff matcher_def makeRe_def obj_assign_def standard_host_def cache_key_def key_step_def or_empty_def
        opt_get_def log_call_def literal_engine_def init_state_def empty_object_def Let_def)
  have h2: "matcher standard_host literal_engine ?p2 (Some (or_empty ?o2)) (init_state :: string state)
        = (Inr (RegExp 0 ?p2),
           snd (matcher standard_host literal_engine ?p2 (Some (or_empty ?o2)) init_state))"
    by (simp add: prod_eq_iff matcher_def makeRe_def obj_assign_def standard_host_def cache_key_def key_step_def or_empty_def
        opt_get_def log_call_def literal_engine_def init_state_def empty_object_def Let_def)
  show ?thesis
    using match_empty_result_policy [OF h1, of "Many []"] match_empty_result_policy [OF h2, of "Many [''a'']"]
    by (simp add: call_matcher_def literal_engine_def opt_get_def or_empty_def)
qed

subsection \<open>Reads and writes of makeReCache\<close>

text \<open>
  C6. The claim is that a call of \<^verbatim>\<open>makeRe\<close> with \<^verbatim>\<open>cache: false\<close> stores the instance it
  builds under its key, and that a later call with the same key and \<^verbatim>\<open>cache\<close> not
  \<^verbatim>\<open>false\<close> returns that instance. \<^verbatim>\<open>makeReCache\<close> is a plain object, and line 190 calls
  \<^verbatim>\<open>makeReCache.hasOwnProperty(key)\<close> on it. After \<^verbatim>\<open>makeRe('hasOwnProperty')\<close> the object
  has an own property of that name, holding a regular expression. The call
  \<^verbatim>\<open>makeRe('a', {cache: false})\<close> still builds instance 1 and stores it under
  \<^verbatim>\<open>'a;cache=false'\<close>, because with \<^verbatim>\<open>cache: false\<close> line 190 does not reach the method call.
  The later call \<^verbatim>\<open>makeRe('a;cache=false')\<close>, which has the same key and no options, calls
  the regular expression as if it were the method and throws a \<^verbatim>\<open>TypeError\<close> instead of
  returning the stored instance.
\<close>

theorem makeRe_read_throws_after_hasOwnProperty_key:
  "fst (makeRe standard_host literal_engine ''a'' (Some [(''cache'', OBool False)])
          (snd (makeRe standard_host literal_engine ''hasOwnProperty'' None (init_state :: string state))))
     = Inr (RegExp 1 ''a'') \<and>
   own (makeReCache (snd (makeRe standard_host literal_engine ''a'' (Some [(''cache'', OBool False)])
          (snd (makeRe standard_host literal_engine ''hasOwnProperty'' None (init_state :: string state))))))
     ''a;cache=false'' = Some (RegExp 1 ''a'') \<and>
   cache_key ''a;cache=false'' None = cache_key ''a'' (Some [(''cache'', OBool False)]) \<and>
   fst (makeRe standard_host literal_engine ''a;cache=false'' None
          (snd (makeRe standard_host literal_engine ''a'' (Some [(''cache'', OBool False)])
             (snd (makeRe standard_host literal_engine ''hasOwnProperty'' None (init_state :: string state))))))
     = Inl TypeError"
  by (simp add: run_simps)

subsection \<open>Repeating braces.isMatch\<close>

text \<open>
  C7. The claim is that a second call of \<^verbatim>\<open>braces.isMatch\<close> with the same arguments
  reuses the stored predicate and does not invoke the pattern engine again. \<^verbatim>\<open>cache\<close> is
  a plain object: for the pattern \<^verbatim>\<open>'__proto__'\<close> without options the assignment of line
  130, \<^verbatim>\<open>cache['__proto__'] = ...\<close>, replaces the prototype of \<^verbatim>\<open>cache\<close> and creates no
  own property (and so does line 194 with \<^verbatim>\<open>makeReCache\<close>). The second call
  \<^verbatim>\<open>isMatch('x', '__proto__')\<close> misses at line 127 and at line 190 and invokes the engine
  again: the log of engine calls grows by the same two entries as in the first call.
  Both calls return \<^verbatim>\<open>false\<close>.
\<close>

theorem isMatch_proto_key_invokes_engine_again:
  "fst (isMatch standard_host literal_engine ''x'' ''__proto__'' None (init_state :: string state))
     = Inr (Bool False) \<and>
   engine_log (snd (isMatch standard_host literal_engine ''x'' ''__proto__'' None (init_state :: string state)))
     = [NewBraces (Some []), MakeRe ''__proto__''] \<and>
   own (cache (snd (isMatch standard_host literal_engine ''x'' ''__proto__'' None (init_state :: string state))))
     ''__proto__'' = None \<and>
   fst (isMatch standard_host literal_engine ''x'' ''__proto__'' None
          (snd (isMatch standard_host literal_engine ''x'' ''__proto__'' None (init_state :: string state))))
     = Inr (Bool False) \<and>
   engine_log (snd (isMatch standard_host literal_engine ''x'' ''__proto__'' None
          (snd (isMatch standard_host literal_engine ''x'' ''__proto__'' None (init_state :: string state)))))
     = [NewBraces (Some []), MakeRe ''__proto__'', NewBraces (Some []), MakeRe ''__proto__'']"
  by (simp add: run_simps)

subsection \<open>braces.compile and the caches\<close>

text \<open>
  C8. A call of \<open>compile\<close> leaves both cache objects exactly as they were: \<^verbatim>\<open>cache\<close>,
  which holds the compiled outputs of \<open>braces\<close> and the predicates of \<open>isMatch\<close>, and
  \<^verbatim>\<open>makeReCache\<close>, which holds the regular expressions of \<open>makeRe\<close>.
\<close>

theorem compile_leaves_caches:
  "cache (snd (compile E pattern options s)) = cache s \<and>
   makeReCache (snd (compile E pattern options s)) = makeReCache s"
  by (simp add: compile_def log_call_def Let_def split: sum.splits)

subsection \<open>braces.match filters in order\<close>

text \<open>
  C9. Once the matcher is built and at least one candidate is retained, \<open>match\<close>
  returns exactly the candidates for which the predicate holds (a single string counting
  as a one-element sequence), in their original order; the result is a subsequence of
  the candidates and each of its elements is one of them.
\<close>

theorem match_filters_in_order:
  assumes "matcher H E pattern (Some (or_empty options)) s = (Inr re, s1)"
    and "filter (call_matcher E re) (arrayify arr) \<noteq> []"
  shows "fst (match H E arr pattern options s) = Inr (filter (call_matcher E re) (arrayify arr)) \<and>
         subseq (filter (call_matcher E re) (arrayify arr)) (arrayify arr) \<and>
         set (filter (call_matcher E re) (arrayify arr)) \<subseteq> set (arrayify arr)"
  using match_result [OF assms(1), of arr] assms(2)
  by (simp add: Let_def)

theorem match_filters_in_order_witness:
  "fst (match standard_host literal_engine (Many [''a.a'', ''a.b'', ''a.c'', ''a.b'']) ''a.b'' None
          (init_state :: string state))
     = Inr [''a.b'', ''a.b'']"
proof -
  have h: "matcher standard_host literal_engine ''a.b'' (Some (or_empty None)) (init_state :: string state)
        = (Inr (RegExp 0 ''a.b''),
           snd (matcher standard_host literal_engine ''a.b'' (Some (or_empty None)) init_state))"
    by (simp add: prod_eq_iff matcher_def makeRe_def obj_assign_def standard_host_def cache_key_def key_step_def or_empty_def
        opt_get_def log_call_def literal_engine_def init_state_def empty_object_def Let_def)
  have n: "filter (call_matcher literal_engine (RegExp 0 ''a.b''))
             (arrayify (Many [''a.a'', ''a.b'', ''a.c'', ''a.b''])) \<noteq> []"
    by (simp add: call_matcher_def literal_engine_def)
  show ?thesis
    using match_filters_in_order [OF h n]
    by (simp add: call_matcher_def literal_engine_def)
qed

subsection \<open>A falsy output is compiled again\<close>

text \<open>
  C10. When \<^verbatim>\<open>braces(p, optsA)\<close> returns a falsy value, this value is the empty string,
  it was stored under \<open>p\<close>, and the next call \<^verbatim>\<open>braces(p, optsB)\<close> does not serve it: the
  call is the miss path, which runs \<open>compile\<close> with \<open>optsB\<close>, the options of that call
  (the log of engine calls grows by the construction of an engine with \<open>optsB\<close> and the
  parse of the escaped pattern), and stores what it returns. The same holds for every
  further call as long as the output is falsy.
\<close>

theorem braces_falsy_output_recompiles:
  assumes "braces H E p optsA s = (Inr v, s1)" and "\<not> truthy H v"
  shows "v = Stored (Output (OutStr [])) \<and> own (cache s1) p = Some (Output (OutStr [])) \<and>
         braces H E p optsB s1 =
           (case compile E p optsB s1 of
              (Inl e, s2) \<Rightarrow> (Inl e, s2)
            | (Inr result, s2) \<Rightarrow>
                (Inr (Stored (Output (output_val result))),
                 s2\<lparr>cache := (cache s2)\<lparr>own := (own (cache s2))(p \<mapsto> Output (output_val result))\<rparr>\<rparr>)) \<and>
         take 2 (drop (length (engine_log s1)) (engine_log (snd (braces H E p optsB s1)))) =
           [NewBraces optsB, Parse (utils_escape E p optsB) optsB]"
proof -
  consider (hit) w where "cache_get H (cache s) p = Inr (Some w)" "truthy H w"
    | (err) e where "cache_get H (cache s) p = Inl e"
    | (miss) "cache_get H (cache s) p = Inr None \<or> (\<exists>w. cache_get H (cache s) p = Inr (Some w) \<and> \<not> truthy H w)"
    using braces_cases [of H s p] by blast
  then obtain result :: compiled and s0 where v0: "v = Stored (Output (output_val result))"
    and s1: "s1 = s0\<lparr>cache := (cache s0)\<lparr>own := (own (cache s0))(p \<mapsto> Output (output_val result))\<rparr>\<rparr>"
  proof cases
    case hit
    then have "braces H E p optsA s = (Inr w, s)" by (rule braces_hit)
    with assms hit show ?thesis by simp
  next
    case err
    then have "fst (braces H E p optsA s) = Inl e" by (simp add: braces_def Let_def)
    with assms(1) show ?thesis by simp
  next
    case miss
    then show ?thesis using assms(1) that by (rule braces_miss_result)
  qed
  have o: "output_val result = OutStr []"
    using assms(2) v0 by (cases "Output (output_val result) :: 'a entry" rule: truthy_entry.cases) auto
  have v: "v = Stored (Output (OutStr []))" using v0 o by simp
  have c: "own (cache s1) p = Some (Output (OutStr []))" using s1 o by simp
  then have g: "cache_get H (cache s1) p = Inr (Some (Stored (Output (OutStr []))))"
    by (rule cache_get_own)
  have m: "cache_get H (cache s1) p = Inr None \<or> (\<exists>w. cache_get H (cache s1) p = Inr (Some w) \<and> \<not> truthy H w)"
    using g by simp
  have a: "obj_assign is_object (assignable H) (cache s2) p x
             = Inr ((cache s2)\<lparr>own := (own (cache s2))(p \<mapsto> x)\<rparr>)"
    if "cache s2 = cache s1" for s2 :: "'a state" and x
    using that c by (simp add: obj_assign_def)
  have b: "braces H E p optsB s1 =
           (case compile E p optsB s1 of
              (Inl e, s2) \<Rightarrow> (Inl e, s2)
            | (Inr result, s2) \<Rightarrow>
                (Inr (Stored (Output (output_val result))),
                 s2\<lparr>cache := (cache s2)\<lparr>own := (own (cache s2))(p \<mapsto> Output (output_val result))\<rparr>\<rparr>))"
    unfolding braces_miss [OF m, of E optsB]
    using compile_frame [of E p optsB s1] a
    by (cases "compile E p optsB s1") (auto split: sum.splits)
  have l: "take 2 (drop (length (engine_log s1)) (engine_log (snd (braces H E p optsB s1)))) =
           [NewBraces optsB, Parse (utils_escape E p optsB) optsB]"
    unfolding b by (simp add: compile_def log_call_def Let_def split: sum.splits)
  from v c b l show ?thesis by simp
qed

theorem braces_falsy_output_recompiles_witness:
  "own (cache (snd (braces standard_host literal_engine [] None (init_state :: string state)))) []
     = Some (Output (OutStr [])) \<and>
   fst (braces standard_host literal_engine [] (Some [(''expand'', OBool True)])
          (snd (braces standard_host literal_engine [] None (init_state :: string state))))
     = Inr (Stored (Output (OutArr [[]]))) \<and>
   take 2 (drop (length (engine_log (snd (braces standard_host literal_engine [] None (init_state :: string state)))))
     (engine_log (snd (braces standard_host literal_engine [] (Some [(''expand'', OBool True)])
          (snd (braces standard_host literal_engine [] None (init_state :: string state)))))))
     = [NewBraces (Some [(''expand'', OBool True)]), Parse [] (Some [(''expand'', OBool True)])]"
proof -
  let ?S = "snd (braces standard_host literal_engine [] None (init_state :: string state))"
  let ?B = "Some [(''expand'', OBool True)]"
  have f: "fst (braces standard_host literal_engine [] None (init_state :: string state))
             = Inr (Stored (Output (OutStr [])))"
    by (simp add: braces_def compile_def cache_get_def obj_assign_def log_call_def unescape_output_def
        opt_get_def or_empty_def literal_engine_def standard_host_def object_prototype_members_def
        init_state_def empty_object_def Let_def)
  have h: "braces standard_host literal_engine [] None (init_state :: string state)
             = (Inr (Stored (Output (OutStr []))), ?S)"
    using f by (simp add: prod_eq_iff)
  have t: "\<not> truthy standard_host (Stored (Output (OutStr [])) :: (string, string) jsvalue)" by simp
  have e: "utils_escape literal_engine [] ?B = []" by (simp add: literal_engine_def)
  have c: "fst (compile literal_engine [] ?B ?S) = Inr \<lparr>output_val = OutArr [[]]\<rparr>"
    by (simp add: compile_def log_call_def unescape_output_def opt_get_def or_empty_def
        literal_engine_def Let_def)
  note k = braces_falsy_output_recompiles [OF h t, of ?B]
  from k have A: "own (cache ?S) [] = Some (Output (OutStr []))" by (elim conjE)
  from k have B: "braces standard_host literal_engine [] ?B ?S =
           (case compile literal_engine [] ?B ?S of
              (Inl e, s2) \<Rightarrow> (Inl e, s2)
            | (Inr result, s2) \<Rightarrow>
                (Inr (Stored (Output (output_val result))),
                 s2\<lparr>cache := (cache s2)\<lparr>own := (own (cache s2))([] \<mapsto> Output (output_val result))\<rparr>\<rparr>))"
    by (elim conjE)
  from k have C: "take 2 (drop (length (engine_log ?S))
       (engine_log (snd (braces standard_host literal_engine [] ?B ?S))))
     = [NewBraces ?B, Parse (utils_escape literal_engine [] ?B) ?B]"
    by (elim conjE)
  have R: "fst (braces standard_host literal_engine [] ?B ?S) = Inr (Stored (Output (OutArr [[]])))"
    unfolding B using c by (cases "compile literal_engine [] ?B ?S") simp
  show ?thesis using A R C e by simp
qed

end
